theory Spec2Isabelle
  imports Complex_Main
begin

section \<open>Go strings and the case mappings of package strings\<close>

text \<open>
  A Go string is a sequence of bytes; \<open>len(s)\<close> counts bytes and \<open>s[0:n]\<close> slices
  bytes. It is modelled as a \<^typ>\<open>string\<close>, a list of 8-bit \<^typ>\<open>char\<close>.

  \<open>strings.ToUpper\<close> and \<open>strings.ToLower\<close> of the Go library first scan for a
  byte \<open>\<ge> 0x80\<close>. An all-ASCII string is mapped byte by byte; any other string goes
  through the Unicode tables (\<open>strings.Map(unicode.ToUpper, s)\<close>), which are not part of this
  repository: that path is the parameter \<open>uni\<close>.
\<close>

definition isASCII :: "string \<Rightarrow> bool" where
  "isASCII s = list_all (\<lambda>c. (of_char c :: nat) < 128) s"

definition upperByte :: "char \<Rightarrow> char" where
  "upperByte c =
     (if (97::nat) \<le> of_char c \<and> (of_char c :: nat) \<le> 122
      then char_of ((of_char c :: nat) - 32) else c)"

definition lowerByte :: "char \<Rightarrow> char" where
  "lowerByte c =
     (if (65::nat) \<le> of_char c \<and> (of_char c :: nat) \<le> 90
      then char_of ((of_char c :: nat) + 32) else c)"

definition ToUpper :: "(string \<Rightarrow> string) \<Rightarrow> string \<Rightarrow> string" where
  "ToUpper uni s = (if isASCII s then map upperByte s else uni s)"

definition ToLower :: "(string \<Rightarrow> string) \<Rightarrow> string \<Rightarrow> string" where
  "ToLower uni s = (if isASCII s then map lowerByte s else uni s)"


section \<open>vprinter/1403.go: the virtual 1403 print job\<close>

definition maxLinesPerPage :: int where
  "maxLinesPerPage = 66"

definition maxLineCharacters :: nat where
  "maxLineCharacters = 132"

definition v1403W :: int where
  "v1403W = 1071"

definition v1403H :: int where
  "v1403H = 792"

subsection \<open>The part of gofpdf the job uses\<close>

text \<open>
  The PDF document is kept as the list of its pages, each page the list of the text
  cells \<open>CellFormat\<close> has put on it, in drawing order, together with the current
  position, the library's sticky error flag and whether the font \<open>userfont\<close> is
  registered. Once the error flag is set, \<open>AddPage\<close>, \<open>SetFont\<close> and \<open>CellFormat\<close> do
  nothing. The page is 1071 by 792 points with all margins 0 and no automatic page break,
  as \<open>New1403\<close> sets it up. The page background drawn by the header function
  (\<open>drawBackground\<close>) is decoration that no operation of the job reads back; it is left
  out. Coordinates are the real numbers the \<open>float64\<close> values denote. The text of a cell
  is the byte string handed to \<open>CellFormat\<close>.
\<close>

record cell =
  cellX :: real
  cellY :: real
  cellText :: string

record fpdf =
  pages :: "cell list list"
  posX :: real
  posY :: real
  docErr :: bool
  userfont :: bool

text \<open>
  What the library's font parser makes of the font bytes is not part of this repository:
  a font it can parse gives the width of a string in that font, a font it cannot parse
  is not registered, and on some inputs (the empty slice among them) the parser panics.
  The parser is the parameter \<open>parseFont\<close>. A nil slice never reaches the parser and
  leaves the document without the font.
\<close>

datatype font_load = FontLoaded "string \<Rightarrow> real" | FontUnusable | FontPanic

datatype panic = Panic

definition loadFont :: "(char list \<Rightarrow> font_load) \<Rightarrow> char list option \<Rightarrow> font_load" where
  "loadFont parseFont f = (case f of None \<Rightarrow> FontUnusable | Some bs \<Rightarrow> parseFont bs)"

definition NewCustom :: fpdf where
  "NewCustom = \<lparr>pages = [], posX = 0, posY = 0, docErr = False, userfont = False\<rparr>"

definition AddUTF8FontFromBytes :: "font_load \<Rightarrow> fpdf \<Rightarrow> fpdf" where
  "AddUTF8FontFromBytes ld d =
     (if docErr d then d
      else case ld of FontLoaded m \<Rightarrow> d\<lparr>userfont := True\<rparr> | _ \<Rightarrow> d)"

text \<open>
  \<open>SetFont("userfont", "", size)\<close>: selecting a font that is not registered puts the
  document into its error state.
\<close>

definition SetFont :: "fpdf \<Rightarrow> fpdf" where
  "SetFont d = (if docErr d then d else if userfont d then d else d\<lparr>docErr := True\<rparr>)"

definition GetStringWidth :: "font_load \<Rightarrow> fpdf \<Rightarrow> string \<Rightarrow> real" where
  "GetStringWidth ld d s =
     (if docErr d then 0 else case ld of FontLoaded m \<Rightarrow> m s | _ \<Rightarrow> 0)"

definition AddPage :: "fpdf \<Rightarrow> fpdf" where
  "AddPage d = (if docErr d then d else d\<lparr>pages := pages d @ [[]], posX := 0, posY := 0\<rparr>)"

text \<open>
  \<open>SetXY\<close> counts a negative abscissa from the right edge of the page and a negative
  ordinate from its bottom edge.
\<close>

definition SetXY :: "real \<Rightarrow> real \<Rightarrow> fpdf \<Rightarrow> fpdf" where
  "SetXY x y d =
     d\<lparr>posX := (if x \<ge> 0 then x else of_int v1403W + x),
       posY := (if y \<ge> 0 then y else of_int v1403H + y)\<rparr>"

text \<open>The cells a text makes at a position: none for the empty text, one otherwise.\<close>

definition lineCells :: "real \<Rightarrow> real \<Rightarrow> string \<Rightarrow> cell list" where
  "lineCells x y t = (if t = [] then [] else [\<lparr>cellX = x, cellY = y, cellText = t\<rparr>])"

text \<open>
  \<open>CellFormat(0, 12, s, "", 0, "LM", false, 0, "")\<close> prints \<open>s\<close> in a cell that starts at
  the current position of the current (last) page and reaches to the right edge, and
  moves the position to the end of the cell. It emits no text for the empty string.
  Without a page there is nothing to draw on; the job has one whenever the document is
  not in its error state, since \<open>New1403\<close> opens the first page.
\<close>

definition CellFormat :: "string \<Rightarrow> fpdf \<Rightarrow> fpdf" where
  "CellFormat s d =
     (if docErr d then d
      else case rev (pages d) of
             [] \<Rightarrow> d\<lparr>posX := of_int v1403W\<rparr>
           | p # earlier \<Rightarrow>
               d\<lparr>pages := rev earlier @ [p @ lineCells (posX d) (posY d) s],
                 posX := of_int v1403W\<rparr>)"

subsection \<open>The job\<close>

text \<open>The font is a byte slice; \<open>None\<close> is the nil slice.\<close>

record virtual1403 =
  pdf :: fpdf
  font :: "char list option"
  curLine :: int
  leftMargin :: real

definition NewPage :: "virtual1403 \<Rightarrow> virtual1403" where
  "NewPage job = job\<lparr>pdf := SetFont (AddPage (pdf job)), curLine := 5\<rparr>"

definition AddLine :: "(string \<Rightarrow> string) \<Rightarrow> string \<Rightarrow> virtual1403 \<Rightarrow> virtual1403" where
  "AddLine uni s job =
     (let job1 = (if curLine job \<ge> maxLinesPerPage then NewPage job else job);
          s1 = (if length s > maxLineCharacters then take maxLineCharacters s else s);
          s2 = ToUpper uni s1;
          d1 = SetXY (leftMargin job1) (of_int (curLine job1 * 12) + 1 / 4) (pdf job1);
          d2 = CellFormat s2 d1
      in job1\<lparr>pdf := d2, curLine := curLine job1 + 1\<rparr>)"

text \<open>\<open>determineLineWidth\<close> asks gofpdf for the width of 132 blanks in the job's font.\<close>

definition determineLineWidth :: "font_load \<Rightarrow> fpdf \<Rightarrow> real" where
  "determineLineWidth ld d = GetStringWidth ld d (replicate 132 (CHR '' ''))"

text \<open>
  \<open>New1403\<close> returns a nil error whenever it returns; it does not return when the font
  parser panics. In \<open>v1403W/2 - determineLineWidth(j.pdf)/2\<close> the left operand is a
  quotient of untyped integer constants, hence the integer 535.
\<close>

definition New1403 ::
  "(char list \<Rightarrow> font_load) \<Rightarrow> char list option \<Rightarrow> panic + virtual1403" where
  "New1403 parseFont f =
     (case loadFont parseFont f of
        FontPanic \<Rightarrow> Inl Panic
      | ld \<Rightarrow>
          (let d1 = AddUTF8FontFromBytes ld NewCustom;
               d2 = SetFont d1;
               lm = of_int (v1403W div 2) - determineLineWidth ld d2 / 2
           in Inr (NewPage \<lparr>pdf = d2, font = f, curLine = 0, leftMargin = lm\<rparr>)))"

text \<open>The calls a client of the job makes between \<open>New1403\<close> and \<open>EndJob\<close>.\<close>

datatype job_call = CallAddLine string | CallNewPage

fun call :: "(string \<Rightarrow> string) \<Rightarrow> job_call \<Rightarrow> virtual1403 \<Rightarrow> virtual1403" where
  "call uni (CallAddLine s) job = AddLine uni s job"
| "call uni CallNewPage job = NewPage job"

definition run :: "(string \<Rightarrow> string) \<Rightarrow> job_call list \<Rightarrow> virtual1403 \<Rightarrow> virtual1403" where
  "run uni cs job = fold (call uni) cs job"



text \<open>The invariant every job built by \<open>New1403\<close> keeps.\<close>

definition jobInv :: "virtual1403 \<Rightarrow> bool" where
  "jobInv job \<longleftrightarrow>
     5 \<le> curLine job \<and> curLine job \<le> 66 \<and>
     list_all (\<lambda>p. length p \<le> 61) (pages (pdf job)) \<and>
     (if docErr (pdf job) then pages (pdf job) = []
      else userfont (pdf job) \<and> pages (pdf job) \<noteq> [] \<and>
           int (length (last (pages (pdf job)))) \<le> curLine job - 5)"


section \<open>vprinter/profiles.go: the named render profiles\<close>

text \<open>
  The type \<open>ColorRGB\<close> is declared elsewhere in the package; the composite literals
  give it three numeric components, and \<open>ColorRGB{}\<close> is its zero value.
\<close>

datatype ColorRGB = ColorRGB int int int

definition DarkGreen :: ColorRGB where
  "DarkGreen = ColorRGB 99 182 99"

definition LightGreen :: ColorRGB where
  "LightGreen = ColorRGB 219 240 219"

definition DarkBlue :: ColorRGB where
  "DarkBlue = ColorRGB 65 182 255"

definition LightBlue :: ColorRGB where
  "LightBlue = ColorRGB 214 239 255"

definition zeroColor :: ColorRGB where
  "zeroColor = ColorRGB 0 0 0"

text \<open>
  \<open>NewProfile\<close> calls a seven-argument \<open>New1403\<close> (font, size, line skip, two flags, two
  colours) that is a later form of the one-argument constructor of 1403.go and is declared
  elsewhere: it is the parameter \<open>new1403\<close>, whose result type stands for the returned pair of
  job and error. The two embedded font files are the parameters \<open>defaultFont\<close> and
  \<open>wornFont\<close>. A nil \<open>fontOverride\<close> is \<open>None\<close>. Sizes are the real numbers the
  \<open>float64\<close> values denote.
\<close>

definition NewProfile ::
  "(string \<Rightarrow> string) \<Rightarrow>
   (char list \<Rightarrow> real \<Rightarrow> int \<Rightarrow> bool \<Rightarrow> bool \<Rightarrow> ColorRGB \<Rightarrow> ColorRGB \<Rightarrow> 'j) \<Rightarrow>
   char list \<Rightarrow> char list \<Rightarrow> string \<Rightarrow> char list option \<Rightarrow> real \<Rightarrow> 'j" where
  "NewProfile uni new1403 defaultFont wornFont profile fontOverride sizeOverride =
     (let tempFont = (case fontOverride of None \<Rightarrow> defaultFont | Some f \<Rightarrow> f);
          tempSize = (if sizeOverride > 0 then sizeOverride else 12);
          p = ToLower uni profile
      in if p = ''default-green'' then new1403 tempFont tempSize 6 True True DarkGreen LightGreen
         else if p = ''default-green-noskip'' then new1403 tempFont tempSize 1 True True DarkGreen LightGreen
         else if p = ''default-blue'' then new1403 tempFont tempSize 6 True True DarkBlue LightBlue
         else if p = ''default-blue-noskip'' then new1403 tempFont tempSize 1 True True DarkBlue LightBlue
         else if p = ''default-plain'' then new1403 tempFont tempSize 6 True False zeroColor zeroColor
         else if p = ''default-plain-noskip'' then new1403 tempFont tempSize 1 True False zeroColor zeroColor
         else if p = ''retro-green'' then new1403 wornFont 10 6 True True DarkGreen LightGreen
         else if p = ''retro-green-noskip'' then new1403 wornFont 10 1 True True DarkGreen LightGreen
         else if p = ''retro-blue'' then new1403 wornFont 10 6 True True DarkBlue LightBlue
         else if p = ''retro-blue-noskip'' then new1403 wornFont 10 1 True True DarkBlue LightBlue
         else if p = ''retro-plain'' then new1403 wornFont 10 6 True False zeroColor zeroColor
         else if p = ''retro-plain-noskip'' then new1403 wornFont 10 1 True False zeroColor zeroColor
         else if p = ''modern-green'' then new1403 defaultFont 12 6 False True DarkGreen LightGreen
         else if p = ''modern-green-skip5'' then new1403 defaultFont 12 5 False True DarkGreen LightGreen
         else if p = ''modern-green-noskip'' then new1403 defaultFont 12 1 False True DarkGreen LightGreen
         else if p = ''modern-blue'' then new1403 defaultFont 12 6 False True DarkBlue LightBlue
         else if p = ''modern-blue-skip5'' then new1403 defaultFont 12 5 False True DarkBlue LightBlue
         else if p = ''modern-blue-noskip'' then new1403 defaultFont 12 1 False True DarkBlue LightBlue
         else if p = ''modern-plain'' then new1403 defaultFont 12 6 False False zeroColor zeroColor
         else if p = ''modern-plain-skip5'' then new1403 defaultFont 12 5 False False zeroColor zeroColor
         else if p = ''modern-plain-noskip'' then new1403 defaultFont 12 1 False False zeroColor zeroColor
         else if p = ''lpi8-modern-green'' then new1403 defaultFont 9 8 False True DarkGreen LightGreen
         else if p = ''lpi8-modern-green-noskip'' then new1403 defaultFont 9 1 False True DarkGreen LightGreen
         else if p = ''lpi8-modern-blue'' then new1403 defaultFont 9 8 False True DarkBlue LightBlue
         else if p = ''lpi8-modern-blue-noskip'' then new1403 defaultFont 9 1 False True DarkBlue LightBlue
         else if p = ''lpi8-modern-plain'' then new1403 defaultFont 9 8 False False zeroColor zeroColor
         else if p = ''lpi8-modern-plain-noskip'' then new1403 defaultFont 9 1 False False zeroColor zeroColor
         else new1403 tempFont tempSize 6 True True DarkGreen LightGreen)"

text \<open>The case labels of the switch in \<open>NewProfile\<close>, in source order.\<close>

definition profileNames :: "string list" where
  "profileNames =
     [''default-green'', ''default-green-noskip'', ''default-blue'', ''default-blue-noskip'',
      ''default-plain'', ''default-plain-noskip'',
      ''retro-green'', ''retro-green-noskip'', ''retro-blue'', ''retro-blue-noskip'',
      ''retro-plain'', ''retro-plain-noskip'',
      ''modern-green'', ''modern-green-skip5'', ''modern-green-noskip'',
      ''modern-blue'', ''modern-blue-skip5'', ''modern-blue-noskip'',
      ''modern-plain'', ''modern-plain-skip5'', ''modern-plain-noskip'',
      ''lpi8-modern-green'', ''lpi8-modern-green-noskip'',
      ''lpi8-modern-blue'', ''lpi8-modern-blue-noskip'',
      ''lpi8-modern-plain'', ''lpi8-modern-plain-noskip'']"


section \<open>webserver/config.go: reading and validating the configuration\<close>

text \<open>
  \<open>mailer.Config\<close> is declared in another package; \<open>readConfig\<close> reads the three fields
  kept here. Go's \<open>int\<close> fields are only compared with constants, never computed with, so
  they are integers.
\<close>

record mailer_Config =
  FromAddress :: string
  Server :: string
  Port :: int

record 'r ServerConfig =
  DatabaseFile :: string
  CreateAdmin :: string
  FontFile :: string
  ListenPort :: int
  TLSListenPort :: int
  TLSDomain :: string
  BaseURL :: string
  MailConfig :: mailer_Config
  QuotaJobs :: int
  QuotaPages :: int
  QuotaPeriod :: int
  MaxLinesPerJob :: int
  ConcurrentPrintJobs :: int
  InactiveMonthsCleanup :: int
  UnverifiedMonthsCleanup :: int
  PDFDaysCleanup :: int
  NuisanceJobNames :: "string list"
  nuisanceJobRegex :: "'r list"
  ServerAdmin :: string

text \<open>The zero value of \<open>var c ServerConfig\<close>.\<close>

definition zeroConfig :: "'r ServerConfig" where
  "zeroConfig =
     \<lparr>DatabaseFile = [], CreateAdmin = [], FontFile = [], ListenPort = 0, TLSListenPort = 0,
      TLSDomain = [], BaseURL = [],
      MailConfig = \<lparr>FromAddress = [], Server = [], Port = 0\<rparr>,
      QuotaJobs = 0, QuotaPages = 0, QuotaPeriod = 0, MaxLinesPerJob = 0,
      ConcurrentPrintJobs = 0, InactiveMonthsCleanup = 0, UnverifiedMonthsCleanup = 0,
      PDFDaysCleanup = 0, NuisanceJobNames = [], nuisanceJobRegex = [], ServerAdmin = []\<rparr>"

text \<open>
  One constructor per error \<open>readConfig\<close> appends, in source order; \<open>LibError\<close> carries
  an error value of \<open>os.Open\<close> or of the YAML decoder, and \<open>NuisanceRegex\<close> the pattern and
  the error of \<open>regexp.Compile\<close>.
\<close>

datatype 'e config_error =
    LibError 'e
  | DatabaseFileRequired
  | PortInvalid int
  | TLSPortInvalid int
  | TLSDomainRequired
  | BaseURLRequired
  | FromAddressInvalid string
  | ServerAdminInvalid string
  | MailServerRequired
  | MailPortRequired
  | MailPortInvalid int
  | InactiveNeedsUnverified
  | UnverifiedNeedsInactive
  | PDFDaysCleanupRequired
  | NuisanceRegex string 'e

text \<open>The loop over \<open>c.NuisanceJobNames\<close>, threading \<open>c.nuisanceJobRegex\<close> and \<open>errs\<close>.\<close>

fun parseNuisance ::
  "(string \<Rightarrow> 'e + 'r) \<Rightarrow> string list \<Rightarrow> 'r list \<times> 'e config_error list \<Rightarrow>
   'r list \<times> 'e config_error list" where
  "parseNuisance compile [] (rs, errs) = (rs, errs)"
| "parseNuisance compile (n # ns) (rs, errs) =
     (case compile n of
        Inl err \<Rightarrow> parseNuisance compile ns (rs, errs @ [NuisanceRegex n err])
      | Inr r \<Rightarrow> parseNuisance compile ns (rs @ [r], errs))"

text \<open>The checks of \<open>readConfig\<close> between decoding and the nuisance loop, in source order.\<close>

definition fieldErrors :: "(string \<Rightarrow> bool) \<Rightarrow> 'r ServerConfig \<Rightarrow> 'e config_error list" where
  "fieldErrors validateAddress c =
     (if DatabaseFile c = [] then [DatabaseFileRequired] else []) @
     (if ListenPort c < 1 \<or> ListenPort c > 65535 then [PortInvalid (ListenPort c)] else []) @
     (if TLSListenPort c \<ge> 1 \<and> ListenPort c > 65535 then [TLSPortInvalid (ListenPort c)] else []) @
     (if TLSListenPort c > 0 \<and> TLSDomain c = [] then [TLSDomainRequired] else []) @
     (if BaseURL c = [] then [BaseURLRequired] else []) @
     (if \<not> validateAddress (FromAddress (MailConfig c))
      then [FromAddressInvalid (FromAddress (MailConfig c))] else []) @
     (if \<not> validateAddress (ServerAdmin c) then [ServerAdminInvalid (ServerAdmin c)] else []) @
     (if Server (MailConfig c) = [] then [MailServerRequired] else []) @
     (if Port (MailConfig c) = 0 then [MailPortRequired] else []) @
     (if Port (MailConfig c) < 1 \<or> Port (MailConfig c) > 65535
      then [MailPortInvalid (Port (MailConfig c))] else []) @
     (if InactiveMonthsCleanup c > 0 \<and> UnverifiedMonthsCleanup c \<le> 0
      then [InactiveNeedsUnverified] else []) @
     (if UnverifiedMonthsCleanup c > 0 \<and> InactiveMonthsCleanup c \<le> 0
      then [UnverifiedNeedsInactive] else []) @
     (if PDFDaysCleanup c < 1 then [PDFDaysCleanupRequired] else [])"

text \<open>
  The file system, the YAML decoder, \<open>mailer.ValidateAddress\<close> and \<open>regexp.Compile\<close> are
  parameters. \<open>decode\<close> gives the configuration as far as the decoder filled it and the
  decoder's error if it had one; the decoder cannot reach the unexported field
  \<open>nuisanceJobRegex\<close>, which therefore is still nil when the loop starts.
\<close>

definition readConfig ::
  "(string \<Rightarrow> 'e + 'f) \<Rightarrow> ('f \<Rightarrow> 'r ServerConfig \<times> 'e option) \<Rightarrow> (string \<Rightarrow> bool) \<Rightarrow>
   (string \<Rightarrow> 'e + 'r) \<Rightarrow> string \<Rightarrow> 'r ServerConfig \<times> 'e config_error list" where
  "readConfig osOpen decode validateAddress compile path =
     (case osOpen path of
        Inl err \<Rightarrow> (zeroConfig, [LibError err])
      | Inr f \<Rightarrow>
          (let c = (fst (decode f))\<lparr>nuisanceJobRegex := []\<rparr> in
           case snd (decode f) of
             Some err \<Rightarrow> (c, [LibError err])
           | None \<Rightarrow>
               (let (rs, errs) =
                      parseNuisance compile (NuisanceJobNames c) ([], fieldErrors validateAddress c)
                in (c\<lparr>nuisanceJobRegex := rs\<rparr>, errs))))"

text \<open>The two errors that report an unpaired cleanup threshold.\<close>

definition pairingError :: "'e config_error \<Rightarrow> bool" where
  "pairingError e \<longleftrightarrow> e = InactiveNeedsUnverified \<or> e = UnverifiedNeedsInactive"

text \<open>The error that reports an out-of-range TLS port.\<close>

definition tlsRangeError :: "'e config_error \<Rightarrow> bool" where
  "tlsRangeError e = (case e of TLSPortInvalid _ \<Rightarrow> True | _ \<Rightarrow> False)"


section \<open>The Quota Tracker and the Render Dispatcher\<close>

text \<open>
  Modelled from the spec: the per-account quota state of the Quota Tracker (section 4.4),
  whose code is not among the source files. The state is \<open>window_start\<close>, \<open>job_count\<close>
  and \<open>page_count\<close>, with the account's \<open>unlimited\<close> flag; times are seconds.
\<close>

record account =
  unlimited :: bool
  window_start :: int
  job_count :: int
  page_count :: int

text \<open>
  Modelled from the spec: the error taxonomy of section 7, as far as the Quota Tracker and
  the Render Dispatcher raise it.
\<close>

datatype pipeline_error = QuotaExceeded | RenderError

definition secondsPerDay :: int where
  "secondsPerDay = 86400"

text \<open>
  Modelled from the spec: the expiry test of Reserve, "\<open>now - window_start > QuotaPeriod\<close>
  days". The quota settings are the fields \<open>QuotaJobs\<close>, \<open>QuotaPages\<close> and
  \<open>QuotaPeriod\<close> of the configuration.
\<close>

definition windowExpired :: "'r ServerConfig \<Rightarrow> int \<Rightarrow> account \<Rightarrow> bool" where
  "windowExpired cfg now a \<longleftrightarrow> now - window_start a > QuotaPeriod cfg * secondsPerDay"

text \<open>
  Modelled from the spec: the window reset of Reserve, "reset counters and
  \<open>window_start = now\<close>".
\<close>

definition rollWindow :: "'r ServerConfig \<Rightarrow> int \<Rightarrow> account \<Rightarrow> account" where
  "rollWindow cfg now a =
     (if windowExpired cfg now a
      then a\<lparr>window_start := now, job_count := 0, page_count := 0\<rparr> else a)"

text \<open>
  Modelled from the spec: operation Reserve of section 4.4. "If \<open>unlimited\<close>, grant
  immediately. Otherwise, if \<open>now - window_start > QuotaPeriod\<close> days, reset counters and
  \<open>window_start = now\<close>. If \<open>job_count >= QuotaJobs\<close>, fail with \<open>QuotaExceeded\<close>
  (job-based) without mutating state. Otherwise increment \<open>job_count\<close> and return a
  reservation handle." An account pushed above \<open>QuotaPages\<close> by Commit is over quota, and
  Reserve fails for it until the window rolls over. The result is the account after the
  operation and either the error or the grant.
\<close>

definition Reserve ::
  "'r ServerConfig \<Rightarrow> int \<Rightarrow> account \<Rightarrow> account \<times> (pipeline_error + unit)" where
  "Reserve cfg now a =
     (if unlimited a then (a, Inr ())
      else
        (let a1 = rollWindow cfg now a in
         if job_count a1 \<ge> QuotaJobs cfg then (a1, Inl QuotaExceeded)
         else if page_count a1 > QuotaPages cfg then (a1, Inl QuotaExceeded)
         else (a1\<lparr>job_count := job_count a1 + 1\<rparr>, Inr ())))"

text \<open>
  Modelled from the spec: operation Commit of section 4.4, which "adds \<open>actual_pages\<close> to
  \<open>page_count\<close>" whether or not the sum passes \<open>QuotaPages\<close>.
\<close>

definition Commit :: "int \<Rightarrow> account \<Rightarrow> account" where
  "Commit actual_pages a = a\<lparr>page_count := page_count a + actual_pages\<rparr>"

text \<open>
  Modelled from the spec: the rollback of a reservation after a render failure (section
  4.6), "quota reservation is rolled back (\<open>job_count\<close> decremented)". An unlimited account
  was granted without a count, so nothing is taken back from it.
\<close>

definition Rollback :: "account \<Rightarrow> account" where
  "Rollback a = (if unlimited a then a else a\<lparr>job_count := job_count a - 1\<rparr>)"

text \<open>
  Modelled from the spec: a worker of the Render Dispatcher (section 4.6) on a job whose
  reservation was granted. The rendering collaborator is the parameter \<open>render\<close>: it
  gives the finished document with its page count, or \<open>None\<close> when it fails. On failure
  "the job fails with \<open>RenderError\<close>, quota reservation is rolled back ... and no document
  is delivered"; on success the worker "reports actual page count back to the Quota
  Tracker's Commit".
\<close>

definition renderWorker ::
  "('job \<Rightarrow> ('doc \<times> int) option) \<Rightarrow> 'job \<Rightarrow> account \<Rightarrow> account \<times> (pipeline_error + 'doc)" where
  "renderWorker render job a =
     (case render job of
        None \<Rightarrow> (Rollback a, Inl RenderError)
      | Some (doc, actual_pages) \<Rightarrow> (Commit actual_pages a, Inr doc))"

text \<open>
  Modelled from the spec: the pipeline from reservation to rendering (section 2, control
  flow) for one received job: Reserve, then the render worker if the reservation was
  granted.
\<close>

definition submitJob ::
  "'r ServerConfig \<Rightarrow> ('job \<Rightarrow> ('doc \<times> int) option) \<Rightarrow> int \<Rightarrow> 'job \<Rightarrow> account \<Rightarrow>
   account \<times> (pipeline_error + 'doc)" where
  "submitJob cfg render now job a =
     (case Reserve cfg now a of
        (a1, Inl e) \<Rightarrow> (a1, Inl e)
      | (a1, Inr _) \<Rightarrow> renderWorker render job a1)"








section \<open>Concrete inputs\<close>

text \<open>
  Stand-ins for the parameters and sample inputs, used where a property is evaluated on a
  concrete case. \<open>plainCase\<close> takes the place of the Unicode path of the case mappings
  (it is that path on strings whose letters are all of the wanted case already) and
  \<open>noWidth\<close> of the font metrics.
\<close>

definition plainCase :: "string \<Rightarrow> string" where
  "plainCase s = s"

definition noWidth :: "string \<Rightarrow> real" where
  "noWidth s = 0"

text \<open>
  A font parser that accepts every non-empty font and panics on the empty one; a font
  for it; and the job \<open>New1403\<close> builds from them.
\<close>

definition parseSample :: "char list \<Rightarrow> font_load" where
  "parseSample bs = (if bs = [] then FontPanic else FontLoaded noWidth)"

definition sampleFont :: "char list option" where
  "sampleFont = Some ''ttf''"

definition sampleJob :: virtual1403 where
  "sampleJob =
     \<lparr>pdf = \<lparr>pages = [[]], posX = 0, posY = 0, docErr = False, userfont = True\<rparr>,
      font = Some ''ttf'', curLine = 5, leftMargin = 535\<rparr>"



definition fullPage :: "job_call list" where
  "fullPage = replicate 61 (CallAddLine ''payroll'')"

datatype job_spec = JobSpec "char list" real int bool bool ColorRGB ColorRGB

definition exampleConfig :: "string ServerConfig" where
  "exampleConfig =
     \<lparr>DatabaseFile = ''virtual1403.db'', CreateAdmin = [], FontFile = [], ListenPort = 1403,
      TLSListenPort = 0, TLSDomain = [], BaseURL = ''http://localhost:1403'',
      MailConfig = \<lparr>FromAddress = ''printer@example.org'', Server = ''localhost'', Port = 25\<rparr>,
      QuotaJobs = 2, QuotaPages = 100, QuotaPeriod = 1, MaxLinesPerJob = 5000,
      ConcurrentPrintJobs = 4, InactiveMonthsCleanup = 0, UnverifiedMonthsCleanup = 0,
      PDFDaysCleanup = 7, NuisanceJobNames = [], nuisanceJobRegex = [],
      ServerAdmin = ''admin@example.org''\<rparr>"

definition negativeThresholds :: "string ServerConfig" where
  "negativeThresholds =
     exampleConfig\<lparr>InactiveMonthsCleanup := - 1, UnverifiedMonthsCleanup := - 1\<rparr>"

definition inactiveOnly :: "string ServerConfig" where
  "inactiveOnly = exampleConfig\<lparr>InactiveMonthsCleanup := 6\<rparr>"

definition bothThresholds :: "string ServerConfig" where
  "bothThresholds = exampleConfig\<lparr>InactiveMonthsCleanup := 6, UnverifiedMonthsCleanup := 1\<rparr>"

definition tlsConfig :: "string ServerConfig" where
  "tlsConfig = exampleConfig\<lparr>TLSListenPort := 70000, TLSDomain := ''print.example.org''\<rparr>"

definition nuisanceConfig :: "string ServerConfig" where
  "nuisanceConfig = exampleConfig\<lparr>NuisanceJobNames := [''^TESTPRINT$'', ''(BANNER'', ''^X'']\<rparr>"

text \<open>
  A file system whose file holds a given configuration, a decoder that reads it without
  error, an address check that looks for the at sign, and a pattern compiler that rejects
  unbalanced parentheses and otherwise returns the pattern itself.
\<close>

definition openGiven :: "'r ServerConfig \<Rightarrow> string \<Rightarrow> string + 'r ServerConfig" where
  "openGiven c path = Inr c"

definition decodeGiven :: "'r ServerConfig \<Rightarrow> 'r ServerConfig \<times> string option" where
  "decodeGiven c = (c, None)"

definition hasAt :: "string \<Rightarrow> bool" where
  "hasAt a = (CHR ''@'' \<in> set a)"

definition compileBalanced :: "string \<Rightarrow> string + string" where
  "compileBalanced n =
     (if count_list n (CHR ''('') = count_list n (CHR '')'') then Inr n
      else Inl ''missing closing )'')"


definition staleAccount :: account where
  "staleAccount = \<lparr>unlimited = False, window_start = 0, job_count = 1, page_count = 10\<rparr>"

definition fullAccount :: account where
  "fullAccount = \<lparr>unlimited = False, window_start = 0, job_count = 2, page_count = 10\<rparr>"




definition failingRender :: "string list \<Rightarrow> (string \<times> int) option" where
  "failingRender ls = None"


section \<open>Properties of the print job\<close>

lemma jobInv_NewPage: "jobInv job \<Longrightarrow> jobInv (NewPage job)"
  by (simp add: jobInv_def NewPage_def AddPage_def SetFont_def)

lemma jobInv_New1403: "New1403 parseFont f = Inr j0 \<Longrightarrow> jobInv j0"
  by (cases "loadFont parseFont f")
     (auto simp: New1403_def Let_def jobInv_def NewPage_def AddPage_def SetFont_def
        AddUTF8FontFromBytes_def NewCustom_def)


lemma CellFormat_pages:
  "\<not> docErr d \<Longrightarrow> pages d \<noteq> [] \<Longrightarrow>
   pages (CellFormat s d) = butlast (pages d) @ [last (pages d) @ lineCells (posX d) (posY d) s]"
proof -
  assume ne: "pages d \<noteq> []" and ok: "\<not> docErr d"
  then obtain p earlier where r: "rev (pages d) = p # earlier"
    by (cases "rev (pages d)") auto
  then have pg: "pages d = rev earlier @ [p]"
    by (metis rev_rev_ident rev.simps(2))
  show ?thesis
    using ok by (simp add: CellFormat_def r) (simp add: pg)
qed

lemma CellFormat_err: "docErr d \<Longrightarrow> CellFormat s d = d"
  by (simp add: CellFormat_def)

lemma err_CellFormat: "docErr (CellFormat s d) = docErr d"
  by (simp add: CellFormat_def split: list.splits)

lemma userfont_CellFormat: "userfont (CellFormat s d) = userfont d"
  by (simp add: CellFormat_def split: list.splits)

lemma length_lineCells: "length (lineCells x y t) \<le> 1"
  by (simp add: lineCells_def)

lemma jobInv_AddLine: "jobInv job \<Longrightarrow> jobInv (AddLine uni s job)"
proof -
  assume inv: "jobInv job"
  define job1 where "job1 = (if curLine job \<ge> maxLinesPerPage then NewPage job else job)"
  define d1 where
    "d1 = SetXY (leftMargin job1) (of_int (curLine job1 * 12) + 1 / 4) (pdf job1)"
  define t where
    "t = ToUpper uni (if length s > maxLineCharacters then take maxLineCharacters s else s)"
  have inv1: "jobInv job1"
    using inv by (simp add: job1_def jobInv_NewPage)
  have lt: "curLine job1 < 66"
    using inv by (auto simp: job1_def maxLinesPerPage_def NewPage_def jobInv_def)
  have lo: "5 \<le> curLine job1"
    using inv1 by (simp add: jobInv_def)
  have d1f: "pages d1 = pages (pdf job1)" "docErr d1 = docErr (pdf job1)"
    "userfont d1 = userfont (pdf job1)"
    by (simp_all add: d1_def SetXY_def)
  have res: "AddLine uni s job = job1\<lparr>pdf := CellFormat t d1, curLine := curLine job1 + 1\<rparr>"
    by (simp add: AddLine_def Let_def job1_def d1_def t_def)
  show ?thesis
  proof (cases "docErr (pdf job1)")
    case True
    then have "CellFormat t d1 = d1"
      by (simp add: CellFormat_err d1f)
    then show ?thesis
      unfolding res using True inv1 lt lo by (simp add: jobInv_def d1f)
  next
    case False
    have ne: "pages (pdf job1) \<noteq> []" and uf: "userfont (pdf job1)"
      and len: "int (length (last (pages (pdf job1)))) \<le> curLine job1 - 5"
      using inv1 False by (simp_all add: jobInv_def)
    have all: "list_all (\<lambda>p. length p \<le> 61) (butlast (pages (pdf job1)))"
      using inv1 by (auto simp: jobInv_def list_all_iff dest: in_set_butlastD)
    have pg: "pages (CellFormat t d1)
                = butlast (pages (pdf job1)) @
                  [last (pages (pdf job1)) @ lineCells (posX d1) (posY d1) t]"
      using CellFormat_pages [of d1 t] False ne by (simp add: d1f)
    have one: "length (lineCells (posX d1) (posY d1) t) \<le> 1"
      by (rule length_lineCells)
    show ?thesis
      unfolding res using False uf lt lo len all one
      by (simp add: jobInv_def pg err_CellFormat userfont_CellFormat d1f)
  qed
qed

lemma jobInv_call: "jobInv job \<Longrightarrow> jobInv (call uni c job)"
  by (cases c) (simp_all add: jobInv_AddLine jobInv_NewPage)

lemma jobInv_fold: "jobInv job \<Longrightarrow> jobInv (fold (call uni) cs job)"
  by (induction cs arbitrary: job) (simp_all add: jobInv_call)

lemma jobInv_run: "New1403 parseFont f = Inr j0 \<Longrightarrow> jobInv (run uni cs j0)"
  by (simp add: run_def jobInv_fold jobInv_New1403)

lemma err_NewPage: "jobInv job \<Longrightarrow> docErr (pdf (NewPage job)) = docErr (pdf job)"
  by (auto simp: jobInv_def NewPage_def AddPage_def SetFont_def)

lemma err_AddLine: "jobInv job \<Longrightarrow> docErr (pdf (AddLine uni s job)) = docErr (pdf job)"
  by (simp add: AddLine_def Let_def err_CellFormat SetXY_def err_NewPage)

lemma err_fold: "jobInv job \<Longrightarrow> docErr (pdf (fold (call uni) cs job)) = docErr (pdf job)"
proof (induction cs arbitrary: job)
  case Nil
  then show ?case by simp
next
  case (Cons c cs)
  have e: "docErr (pdf (call uni c job)) = docErr (pdf job)"
    using Cons.prems by (cases c) (simp_all add: err_AddLine err_NewPage)
  show ?case
    using Cons.IH [of "call uni c job"] Cons.prems e by (simp add: jobInv_call)
qed







lemma AddLine_at_page_end:
  assumes "curLine job \<ge> 66"
  shows "curLine (AddLine uni s job) = 6"
    and "\<not> docErr (pdf job) \<Longrightarrow> userfont (pdf job) \<Longrightarrow>
         pages (pdf (AddLine uni s job))
           = pages (pdf job) @
             [lineCells (if leftMargin job \<ge> 0 then leftMargin job else 1071 + leftMargin job)
                (60 + 1 / 4) (ToUpper uni (take 132 s))]"
    and "docErr (pdf job) \<Longrightarrow> pages (pdf (AddLine uni s job)) = pages (pdf job)"
  using assms
  by (simp_all add: AddLine_def Let_def maxLinesPerPage_def maxLineCharacters_def NewPage_def
        AddPage_def SetFont_def SetXY_def CellFormat_def v1403W_def)

text \<open>
  C8. After \<open>New1403\<close> (whenever it returns a job) and after every sequence of \<open>AddLine\<close>
  and \<open>NewPage\<close> calls the current-line counter lies between 5 and 66, and every page of
  the document carries at most 61 text lines. \<open>NewPage\<close> always sets the counter to 5.
  \<open>AddLine\<close> on a counter that has reached 66 starts a fresh page before printing and
  leaves the counter at 6: with a loaded font the document gains one page, which holds
  the line as its first; in gofpdf's error state nothing is drawn and the pages stay as
  they are.
\<close>

theorem curLine_between_5_and_66:
  "(New1403 parseFont f = Inr j0 \<longrightarrow>
      5 \<le> curLine (run uni cs j0) \<and> curLine (run uni cs j0) \<le> 66 \<and>
      (\<forall>p \<in> set (pages (pdf (run uni cs j0))). length p \<le> 61)) \<and>
   curLine (NewPage job) = 5 \<and>
   (curLine job \<ge> 66 \<longrightarrow>
      curLine (AddLine uni s job) = 6 \<and>
      (\<not> docErr (pdf job) \<and> userfont (pdf job) \<longrightarrow>
         pages (pdf (AddLine uni s job))
           = pages (pdf job) @
             [lineCells (if leftMargin job \<ge> 0 then leftMargin job else 1071 + leftMargin job)
                (60 + 1 / 4) (ToUpper uni (take 132 s))]) \<and>
      (docErr (pdf job) \<longrightarrow> pages (pdf (AddLine uni s job)) = pages (pdf job)))"
proof -
  have a: "New1403 parseFont f = Inr j0 \<longrightarrow>
             5 \<le> curLine (run uni cs j0) \<and> curLine (run uni cs j0) \<le> 66 \<and>
             (\<forall>p \<in> set (pages (pdf (run uni cs j0))). length p \<le> 61)"
  proof
    assume "New1403 parseFont f = Inr j0"
    then have "jobInv (run uni cs j0)"
      by (rule jobInv_run)
    then show "5 \<le> curLine (run uni cs j0) \<and> curLine (run uni cs j0) \<le> 66 \<and>
               (\<forall>p \<in> set (pages (pdf (run uni cs j0))). length p \<le> 61)"
      by (simp add: jobInv_def list_all_iff)
  qed
  have b: "curLine (NewPage job) = 5"
    by (simp add: NewPage_def)
  show ?thesis
    using a b AddLine_at_page_end [of job uni s] by blast
qed

lemma curLine_AddLine_same_page:
  "curLine job < 66 \<Longrightarrow> curLine (AddLine uni s job) = curLine job + 1"
  by (simp add: AddLine_def Let_def maxLinesPerPage_def)

lemma curLine_AddLines:
  "curLine job + int n \<le> 66 \<Longrightarrow>
   curLine (fold (call uni) (replicate n (CallAddLine s)) job) = curLine job + int n"
proof (induction n arbitrary: job)
  case 0
  then show ?case by simp
next
  case (Suc n)
  have lt: "curLine job < 66"
    using Suc.prems by simp
  have "curLine (AddLine uni s job) + int n \<le> 66"
    using Suc.prems by (simp add: curLine_AddLine_same_page [OF lt])
  then show ?case
    using Suc.IH [of "AddLine uni s job"] by (simp add: curLine_AddLine_same_page [OF lt])
qed

theorem curLine_between_5_and_66_witness:
  "New1403 parseSample sampleFont = Inr sampleJob \<and>
   curLine (run plainCase fullPage sampleJob) = 66 \<and>
   \<not> docErr (pdf (run plainCase fullPage sampleJob)) \<and>
   userfont (pdf (run plainCase fullPage sampleJob)) \<and>
   curLine (AddLine plainCase ''next'' (run plainCase fullPage sampleJob)) = 6 \<and>
   length (pages (pdf (AddLine plainCase ''next'' (run plainCase fullPage sampleJob))))
     = length (pages (pdf (run plainCase fullPage sampleJob))) + 1"
proof -
  have n: "New1403 parseSample sampleFont = Inr sampleJob" by code_simp
  have h: "curLine (run plainCase fullPage sampleJob) = 66"
    unfolding run_def fullPage_def
    using curLine_AddLines [of sampleJob 61 plainCase "''payroll''"]
    by (simp add: sampleJob_def)
  have inv: "jobInv (run plainCase fullPage sampleJob)"
    using n by (rule jobInv_run)
  have e0: "\<not> docErr (pdf sampleJob)"
    by (simp add: sampleJob_def)
  have e: "\<not> docErr (pdf (run plainCase fullPage sampleJob))"
    unfolding run_def using err_fold [of sampleJob plainCase fullPage] jobInv_New1403 [OF n] e0
    by simp
  have u: "userfont (pdf (run plainCase fullPage sampleJob))"
    using inv e by (simp add: jobInv_def)
  note t = curLine_between_5_and_66
             [where job = "run plainCase fullPage sampleJob" and uni = plainCase and s = "''next''"]
  from t h e u
  have p: "pages (pdf (AddLine plainCase ''next'' (run plainCase fullPage sampleJob)))
             = pages (pdf (run plainCase fullPage sampleJob)) @
               [lineCells (if leftMargin (run plainCase fullPage sampleJob) \<ge> 0
                           then leftMargin (run plainCase fullPage sampleJob)
                           else 1071 + leftMargin (run plainCase fullPage sampleJob))
                  (60 + 1 / 4) (ToUpper plainCase (take 132 ''next''))]"
    and c: "curLine (AddLine plainCase ''next'' (run plainCase fullPage sampleJob)) = 6"
    by simp_all
  have m: "length (pages (pdf (AddLine plainCase ''next'' (run plainCase fullPage sampleJob))))
           = length (pages (pdf (run plainCase fullPage sampleJob))) + 1"
    unfolding p by simp
  show ?thesis using n h e u c m by blast
qed


section \<open>Properties of the render profiles\<close>

lemma ToLower_default_green: "ToLower uni ''default-green'' = ''default-green''"
  by (simp add: ToLower_def isASCII_def lowerByte_def)

text \<open>
  C10. For every profile name whose lower-case form is none of the case labels of the
  switch, \<open>NewProfile\<close> returns what it returns for \<open>default-green\<close>: the job built from
  the override font if one is given and the embedded default font otherwise, the override
  size if positive and 12 otherwise, line skip 6 and the green colour pair.
\<close>

theorem NewProfile_unknown_is_default_green:
  assumes "ToLower uni profile \<notin> set profileNames"
  shows "NewProfile uni new1403 defaultFont wornFont profile fontOverride sizeOverride
           = NewProfile uni new1403 defaultFont wornFont ''default-green'' fontOverride sizeOverride \<and>
         NewProfile uni new1403 defaultFont wornFont profile fontOverride sizeOverride
           = new1403 (case fontOverride of None \<Rightarrow> defaultFont | Some f \<Rightarrow> f)
               (if sizeOverride > 0 then sizeOverride else 12) 6 True True DarkGreen LightGreen"
proof -
  have d: "NewProfile uni new1403 defaultFont wornFont ''default-green'' fontOverride sizeOverride
           = new1403 (case fontOverride of None \<Rightarrow> defaultFont | Some f \<Rightarrow> f)
               (if sizeOverride > 0 then sizeOverride else 12) 6 True True DarkGreen LightGreen"
    unfolding NewProfile_def Let_def ToLower_default_green by simp
  have u: "NewProfile uni new1403 defaultFont wornFont profile fontOverride sizeOverride
           = new1403 (case fontOverride of None \<Rightarrow> defaultFont | Some f \<Rightarrow> f)
               (if sizeOverride > 0 then sizeOverride else 12) 6 True True DarkGreen LightGreen"
    using assms unfolding NewProfile_def Let_def profileNames_def by simp
  show ?thesis using d u by simp
qed

theorem NewProfile_unknown_is_default_green_witness:
  "ToLower plainCase ''Fancy-Purple'' \<notin> set profileNames \<and>
   NewProfile plainCase JobSpec ''plex'' ''worn'' ''Fancy-Purple'' None 0
     = NewProfile plainCase JobSpec ''plex'' ''worn'' ''default-green'' None 0 \<and>
   NewProfile plainCase JobSpec ''plex'' ''worn'' ''Fancy-Purple'' None 0
     = JobSpec ''plex'' 12 6 True True (ColorRGB 99 182 99) (ColorRGB 219 240 219)"
proof -
  have h: "ToLower plainCase ''Fancy-Purple'' \<notin> set profileNames"
    by code_simp
  note t = NewProfile_unknown_is_default_green [OF h, of JobSpec "''plex''" "''worn''" None 0]
  have e1: "NewProfile plainCase JobSpec ''plex'' ''worn'' ''Fancy-Purple'' None 0
              = NewProfile plainCase JobSpec ''plex'' ''worn'' ''default-green'' None 0"
    using t by (rule conjunct1)
  have e2: "NewProfile plainCase JobSpec ''plex'' ''worn'' ''Fancy-Purple'' None 0
              = JobSpec ''plex'' 12 6 True True (ColorRGB 99 182 99) (ColorRGB 219 240 219)"
    using conjunct2 [OF t] by (simp add: DarkGreen_def LightGreen_def)
  show ?thesis using h e1 e2 by blast
qed


section \<open>Properties of the configuration check\<close>

lemma readConfig_decoded:
  assumes "osOpen path = Inr f" "decode f = (c0, None)"
  shows "readConfig osOpen decode validateAddress compile path =
           (let c = c0\<lparr>nuisanceJobRegex := []\<rparr>;
                r = parseNuisance compile (NuisanceJobNames c0) ([], fieldErrors validateAddress c)
            in (c\<lparr>nuisanceJobRegex := fst r\<rparr>, snd r))"
  using assms by (simp add: readConfig_def Let_def split: prod.splits)

lemma parseNuisance_errs:
  "snd (parseNuisance compile ns (rs, errs)) =
     errs @ concat (map (\<lambda>n. case compile n of Inl err \<Rightarrow> [NuisanceRegex n err] | Inr r \<Rightarrow> []) ns)"
  by (induction ns arbitrary: rs errs) (auto split: sum.splits)

lemma parseNuisance_regs:
  "fst (parseNuisance compile ns (rs, errs)) =
     rs @ concat (map (\<lambda>n. case compile n of Inl err \<Rightarrow> [] | Inr r \<Rightarrow> [r]) ns)"
  by (induction ns arbitrary: rs errs) (auto split: sum.splits)

lemma errs_decoded:
  assumes "osOpen path = Inr f" "decode f = (c0, None)"
      and "readConfig osOpen decode validateAddress compile path = (c, errs)"
  shows "errs = fieldErrors validateAddress (c0\<lparr>nuisanceJobRegex := []\<rparr>) @
           concat (map (\<lambda>n. case compile n of Inl err \<Rightarrow> [NuisanceRegex n err] | Inr r \<Rightarrow> [])
                     (NuisanceJobNames c0))"
    and "c = c0\<lparr>nuisanceJobRegex :=
                 concat (map (\<lambda>n. case compile n of Inl err \<Rightarrow> [] | Inr r \<Rightarrow> [r])
                           (NuisanceJobNames c0))\<rparr>"
  using assms(3) readConfig_decoded [of osOpen path f decode c0 validateAddress compile] assms(1,2)
  by (simp_all add: Let_def parseNuisance_errs parseNuisance_regs)

lemma bex_if_single: "(\<exists>e \<in> set (if b then [x] else []). P e) \<longleftrightarrow> (b \<and> P x)"
  by (cases b) simp_all

lemma mem_if_single: "e \<in> set (if b then [x] else []) \<longleftrightarrow> (b \<and> e = x)"
  by (cases b) auto

lemma pairing_fieldErrors:
  "(\<exists>e \<in> set (fieldErrors va c). pairingError e) \<longleftrightarrow>
     (InactiveMonthsCleanup c > 0 \<and> UnverifiedMonthsCleanup c \<le> 0) \<or>
     (UnverifiedMonthsCleanup c > 0 \<and> InactiveMonthsCleanup c \<le> 0)"
  unfolding fieldErrors_def set_append bex_Un bex_if_single
  by (simp add: pairingError_def)

text \<open>
  C3, as the claim states it, fails: thresholds that are both negative are neither both
  zero nor both positive, yet an otherwise valid configuration with both set to \<open>-1\<close> is
  read without any error.
\<close>

theorem negative_thresholds_accepted:
  "\<not> (InactiveMonthsCleanup negativeThresholds = 0 \<and>
       UnverifiedMonthsCleanup negativeThresholds = 0) \<and>
   \<not> (InactiveMonthsCleanup negativeThresholds > 0 \<and>
       UnverifiedMonthsCleanup negativeThresholds > 0) \<and>
   readConfig (openGiven negativeThresholds) decodeGiven hasAt compileBalanced ''config.yaml''
     = (negativeThresholds, [])"
  by code_simp

text \<open>
  C3, amended. \<open>readConfig\<close> returns at least one error for every configuration in which
  exactly one of the two cleanup thresholds is positive (the other being zero or negative),
  and produces no threshold-pairing error for any configuration in which they are both
  positive or both zero or negative. Here \<open>c\<close> is the configuration \<open>readConfig\<close>
  returns, which carries the thresholds as read.
\<close>

theorem threshold_pairing:
  assumes "readConfig osOpen decode validateAddress compile path = (c, errs)"
  shows "((InactiveMonthsCleanup c > 0 \<and> UnverifiedMonthsCleanup c \<le> 0) \<or>
          (UnverifiedMonthsCleanup c > 0 \<and> InactiveMonthsCleanup c \<le> 0) \<longrightarrow> errs \<noteq> []) \<and>
         ((InactiveMonthsCleanup c > 0 \<and> UnverifiedMonthsCleanup c > 0) \<or>
          (InactiveMonthsCleanup c \<le> 0 \<and> UnverifiedMonthsCleanup c \<le> 0) \<longrightarrow>
            \<not> (\<exists>e \<in> set errs. pairingError e))"
proof (cases "osOpen path")
  case (Inl err)
  with assms show ?thesis
    by (auto simp: readConfig_def zeroConfig_def pairingError_def)
next
  case (Inr f)
  obtain c0 oe where d: "decode f = (c0, oe)" by (cases "decode f")
  show ?thesis
  proof (cases oe)
    case (Some err)
    with assms Inr d show ?thesis
      by (auto simp: readConfig_def pairingError_def)
  next
    case None
    have d0: "decode f = (c0, None)"
      using d None by simp
    note e = errs_decoded(1) [OF Inr d0 assms] and c = errs_decoded(2) [OF Inr d0 assms]
    have th: "InactiveMonthsCleanup c = InactiveMonthsCleanup c0"
             "UnverifiedMonthsCleanup c = UnverifiedMonthsCleanup c0"
      by (simp_all add: c)
    have nn: "\<not> (\<exists>e \<in> set (concat (map (\<lambda>n. case compile n of
                   Inl err \<Rightarrow> [NuisanceRegex n err] | Inr r \<Rightarrow> []) (NuisanceJobNames c0))).
                 pairingError e)"
      by (auto simp: pairingError_def split: sum.splits)
    have pf: "(\<exists>e \<in> set errs. pairingError e) \<longleftrightarrow>
                (InactiveMonthsCleanup c0 > 0 \<and> UnverifiedMonthsCleanup c0 \<le> 0) \<or>
                (UnverifiedMonthsCleanup c0 > 0 \<and> InactiveMonthsCleanup c0 \<le> 0)"
      using nn pairing_fieldErrors [of validateAddress "c0\<lparr>nuisanceJobRegex := []\<rparr>"]
      unfolding e by auto
    show ?thesis
      unfolding th using pf by auto
  qed
qed

theorem threshold_pairing_witness:
  "0 < InactiveMonthsCleanup inactiveOnly \<and> UnverifiedMonthsCleanup inactiveOnly \<le> 0 \<and>
   snd (readConfig (openGiven inactiveOnly) decodeGiven hasAt compileBalanced ''config.yaml'') \<noteq> [] \<and>
   0 < InactiveMonthsCleanup bothThresholds \<and> 0 < UnverifiedMonthsCleanup bothThresholds \<and>
   \<not> (\<exists>e \<in> set (snd (readConfig (openGiven bothThresholds) decodeGiven hasAt compileBalanced
                       ''config.yaml'')). pairingError e)"
proof -
  have r1: "readConfig (openGiven inactiveOnly) decodeGiven hasAt compileBalanced ''config.yaml''
            = (inactiveOnly, [InactiveNeedsUnverified])"
    by code_simp
  have r2: "readConfig (openGiven bothThresholds) decodeGiven hasAt compileBalanced ''config.yaml''
            = (bothThresholds, [])"
    by code_simp
  have h1: "0 < InactiveMonthsCleanup inactiveOnly \<and> UnverifiedMonthsCleanup inactiveOnly \<le> 0"
    by (simp add: inactiveOnly_def exampleConfig_def)
  have h2: "0 < InactiveMonthsCleanup bothThresholds \<and> 0 < UnverifiedMonthsCleanup bothThresholds"
    by (simp add: bothThresholds_def)
  from threshold_pairing [OF r1] h1
  have a: "[InactiveNeedsUnverified :: string config_error] \<noteq> []"
    by blast
  from threshold_pairing [OF r2] h2
  have b: "\<not> (\<exists>e \<in> set ([] :: string config_error list). pairingError e)"
    by blast
  show ?thesis using a b h1 h2 by (simp add: r1 r2)
qed

text \<open>
  C4. For every configuration that was opened and decoded and in which some entry \<open>n\<close> of
  \<open>nuisance_job_names\<close> fails to compile, the error list \<open>readConfig\<close> returns is not
  empty and holds the error of \<open>n\<close>; the compiled pattern list of the returned
  configuration consists of the compiled forms of exactly the entries that compile, in
  order, so every entry that compiles is in it.
\<close>

theorem nuisance_pattern_rejected:
  assumes "osOpen path = Inr f" "decode f = (c0, None)"
      and "readConfig osOpen decode validateAddress compile path = (c, errs)"
      and "n \<in> set (NuisanceJobNames c0)" "compile n = Inl err"
  shows "errs \<noteq> [] \<and> NuisanceRegex n err \<in> set errs \<and>
         nuisanceJobRegex c =
           concat (map (\<lambda>m. case compile m of Inl _ \<Rightarrow> [] | Inr r \<Rightarrow> [r]) (NuisanceJobNames c0)) \<and>
         (\<forall>m \<in> set (NuisanceJobNames c0). \<forall>r. compile m = Inr r \<longrightarrow> r \<in> set (nuisanceJobRegex c))"
proof -
  note e = errs_decoded(1) [OF assms(1,2,3)] and c = errs_decoded(2) [OF assms(1,2,3)]
  have m: "NuisanceRegex n err \<in> set errs"
    unfolding e using assms(4,5) by (auto intro!: bexI [of _ n])
  then have ne: "errs \<noteq> []" by auto
  have r: "nuisanceJobRegex c =
             concat (map (\<lambda>m. case compile m of Inl _ \<Rightarrow> [] | Inr r \<Rightarrow> [r]) (NuisanceJobNames c0))"
    by (simp add: c)
  have a: "\<forall>m \<in> set (NuisanceJobNames c0). \<forall>r. compile m = Inr r \<longrightarrow> r \<in> set (nuisanceJobRegex c)"
    unfolding r by (auto intro!: bexI)
  show ?thesis using m ne r a by blast
qed

theorem nuisance_pattern_rejected_witness:
  "''(BANNER'' \<in> set (NuisanceJobNames nuisanceConfig) \<and>
   compileBalanced ''(BANNER'' = Inl ''missing closing )'' \<and>
   compileBalanced ''^X'' = Inr ''^X'' \<and>
   snd (readConfig (openGiven nuisanceConfig) decodeGiven hasAt compileBalanced ''config.yaml'')
     = [NuisanceRegex ''(BANNER'' ''missing closing )''] \<and>
   nuisanceJobRegex
       (fst (readConfig (openGiven nuisanceConfig) decodeGiven hasAt compileBalanced ''config.yaml''))
     = [''^TESTPRINT$'', ''^X'']"
proof -
  have o: "openGiven nuisanceConfig ''config.yaml'' = Inr nuisanceConfig"
    by (simp add: openGiven_def)
  have d: "decodeGiven nuisanceConfig = (nuisanceConfig, None)"
    by (simp add: decodeGiven_def)
  have r: "readConfig (openGiven nuisanceConfig) decodeGiven hasAt compileBalanced ''config.yaml''
           = (nuisanceConfig\<lparr>nuisanceJobRegex := [''^TESTPRINT$'', ''^X'']\<rparr>,
              [NuisanceRegex ''(BANNER'' ''missing closing )''])"
    by code_simp
  have n: "''(BANNER'' \<in> set (NuisanceJobNames nuisanceConfig)"
    by (simp add: nuisanceConfig_def)
  have k: "compileBalanced ''(BANNER'' = Inl ''missing closing )''"
    by code_simp
  have k2: "compileBalanced ''^X'' = Inr ''^X''"
    by code_simp
  from nuisance_pattern_rejected [OF o d r n k]
  have "NuisanceRegex ''(BANNER'' ''missing closing )''
          \<in> set [NuisanceRegex ''(BANNER'' ''missing closing )'' :: string config_error]"
    by blast
  then show ?thesis using n k k2 by (simp add: r)
qed

text \<open>
  C9. For every configuration that was opened and decoded and whose \<open>listen_port\<close> lies in
  1..65535, \<open>readConfig\<close> reports no range error for \<open>tls_listen_port\<close>, whatever its value;
  of the two TLS checks only the one that requires a TLS domain applies, and it reports
  exactly when \<open>tls_listen_port > 0\<close> and the domain is empty.
\<close>

theorem tls_port_range_unchecked:
  assumes "osOpen path = Inr f" "decode f = (c0, None)"
      and "readConfig osOpen decode validateAddress compile path = (c, errs)"
      and "1 \<le> ListenPort c0" "ListenPort c0 \<le> 65535"
  shows "\<not> (\<exists>e \<in> set errs. tlsRangeError e) \<and>
         (TLSDomainRequired \<in> set errs \<longleftrightarrow> TLSListenPort c0 > 0 \<and> TLSDomain c0 = [])"
proof -
  note e = errs_decoded(1) [OF assms(1,2,3)]
  have n1: "\<not> (\<exists>e \<in> set (concat (map (\<lambda>n. case compile n of
                 Inl err \<Rightarrow> [NuisanceRegex n err] | Inr r \<Rightarrow> []) (NuisanceJobNames c0))).
               tlsRangeError e)"
    by (auto simp: tlsRangeError_def split: sum.splits)
  have n2: "TLSDomainRequired \<notin> set (concat (map (\<lambda>n. case compile n of
                 Inl err \<Rightarrow> [NuisanceRegex n err] | Inr r \<Rightarrow> []) (NuisanceJobNames c0)))"
    by (auto split: sum.splits)
  have f1: "\<not> (\<exists>e \<in> set (fieldErrors validateAddress (c0\<lparr>nuisanceJobRegex := []\<rparr>)). tlsRangeError e)"
    unfolding fieldErrors_def set_append bex_Un bex_if_single
    using assms(5) by (simp add: tlsRangeError_def)
  have f2: "TLSDomainRequired \<in> set (fieldErrors validateAddress (c0\<lparr>nuisanceJobRegex := []\<rparr>))
              \<longleftrightarrow> TLSListenPort c0 > 0 \<and> TLSDomain c0 = []"
    unfolding fieldErrors_def set_append Un_iff mem_if_single
    by simp
  show ?thesis
    unfolding e using n1 n2 f1 f2 by (simp add: bex_Un)
qed

theorem tls_port_range_unchecked_witness:
  "1 \<le> ListenPort tlsConfig \<and> ListenPort tlsConfig \<le> 65535 \<and> TLSListenPort tlsConfig = 70000 \<and>
   readConfig (openGiven tlsConfig) decodeGiven hasAt compileBalanced ''config.yaml''
     = (tlsConfig, []) \<and>
   \<not> (\<exists>e \<in> set (snd (readConfig (openGiven tlsConfig) decodeGiven hasAt compileBalanced
                       ''config.yaml'')). tlsRangeError e)"
proof -
  have o: "openGiven tlsConfig ''config.yaml'' = Inr tlsConfig"
    by (simp add: openGiven_def)
  have d: "decodeGiven tlsConfig = (tlsConfig, None)"
    by (simp add: decodeGiven_def)
  have r: "readConfig (openGiven tlsConfig) decodeGiven hasAt compileBalanced ''config.yaml''
           = (tlsConfig, [])"
    by code_simp
  have p: "1 \<le> ListenPort tlsConfig" "ListenPort tlsConfig \<le> 65535" "TLSListenPort tlsConfig = 70000"
    by (simp_all add: tlsConfig_def exampleConfig_def)
  from tls_port_range_unchecked [OF o d r p(1,2)]
  have "\<not> (\<exists>e \<in> set ([] :: string config_error list). tlsRangeError e)"
    by blast
  then show ?thesis using p by (simp add: r)
qed



section \<open>Properties of the Quota Tracker\<close>








text \<open>
  C6. For a non-unlimited account whose quota window has not expired and whose
  \<open>job_count\<close> is at least \<open>QuotaJobs\<close>, Reserve fails with \<open>QuotaExceeded\<close> and returns
  the account unchanged, so \<open>window_start\<close>, \<open>job_count\<close> and \<open>page_count\<close> keep their
  values.
\<close>

theorem Reserve_over_quota_fails_unchanged:
  assumes "\<not> unlimited a" "\<not> windowExpired cfg now a" "job_count a \<ge> QuotaJobs cfg"
  shows "Reserve cfg now a = (a, Inl QuotaExceeded)"
  using assms by (simp add: Reserve_def rollWindow_def)

theorem Reserve_over_quota_fails_unchanged_witness:
  "\<not> unlimited fullAccount \<and> \<not> windowExpired exampleConfig 30 fullAccount \<and>
   job_count fullAccount \<ge> QuotaJobs exampleConfig \<and>
   Reserve exampleConfig 30 fullAccount = (fullAccount, Inl QuotaExceeded)"
proof -
  have h1: "\<not> unlimited fullAccount" by (simp add: fullAccount_def)
  have h2: "\<not> windowExpired exampleConfig 30 fullAccount" by code_simp
  have h3: "job_count fullAccount \<ge> QuotaJobs exampleConfig"
    by (simp add: fullAccount_def exampleConfig_def)
  show ?thesis
    using h1 h2 h3 Reserve_over_quota_fails_unchanged [OF h1 h2 h3] by blast
qed

text \<open>
  C5, as the claim states it, fails: when the account's window has expired, the
  reservation first resets the window, so after the render failure \<open>job_count\<close> is 0 and
  not its value from before the reservation (here 1).
\<close>

theorem render_fail_after_window_reset:
  "\<not> unlimited staleAccount \<and>
   snd (Reserve exampleConfig 172800 staleAccount) = Inr () \<and>
   failingRender [''HELLO''] = None \<and>
   snd (submitJob exampleConfig failingRender 172800 [''HELLO''] staleAccount) = Inl RenderError \<and>
   job_count staleAccount = 1 \<and>
   job_count (fst (submitJob exampleConfig failingRender 172800 [''HELLO''] staleAccount)) = 0"
  by code_simp

text \<open>
  C5, amended. For every non-unlimited account whose reservation is granted, reserve
  followed by a rendering failure fails the job with \<open>RenderError\<close>, produces no document,
  and leaves the quota counters as they were just before the reservation counted the job:
  unchanged from before the reservation when the window had not expired (a net no-op on
  \<open>window_start\<close>, \<open>job_count\<close> and \<open>page_count\<close>), and at the freshly reset window
  (\<open>window_start = now\<close>, both counters 0) when it had.
\<close>

theorem reserve_then_render_fail:
  assumes "\<not> unlimited a" "snd (Reserve cfg now a) = Inr ()" "render job = None"
  shows "submitJob cfg render now job a = (rollWindow cfg now a, Inl RenderError) \<and>
         (\<not> windowExpired cfg now a \<longrightarrow> submitJob cfg render now job a = (a, Inl RenderError)) \<and>
         (windowExpired cfg now a \<longrightarrow>
            submitJob cfg render now job a
              = (a\<lparr>window_start := now, job_count := 0, page_count := 0\<rparr>, Inl RenderError))"
  using assms
  by (auto simp: submitJob_def Reserve_def renderWorker_def Rollback_def rollWindow_def Let_def
           split: if_splits)

theorem reserve_then_render_fail_witness:
  "\<not> unlimited staleAccount \<and> failingRender [''HELLO''] = None \<and>
   snd (Reserve exampleConfig 3600 staleAccount) = Inr () \<and>
   \<not> windowExpired exampleConfig 3600 staleAccount \<and>
   submitJob exampleConfig failingRender 3600 [''HELLO''] staleAccount
     = (staleAccount, Inl RenderError) \<and>
   snd (Reserve exampleConfig 172800 staleAccount) = Inr () \<and>
   windowExpired exampleConfig 172800 staleAccount \<and>
   submitJob exampleConfig failingRender 172800 [''HELLO''] staleAccount
     = (staleAccount\<lparr>window_start := 172800, job_count := 0, page_count := 0\<rparr>, Inl RenderError)"
proof -
  have h1: "\<not> unlimited staleAccount" by (simp add: staleAccount_def)
  have h3: "failingRender [''HELLO''] = None" by (simp add: failingRender_def)
  have g1: "snd (Reserve exampleConfig 3600 staleAccount) = Inr ()" by code_simp
  have g2: "snd (Reserve exampleConfig 172800 staleAccount) = Inr ()" by code_simp
  have w1: "\<not> windowExpired exampleConfig 3600 staleAccount" by code_simp
  have w2: "windowExpired exampleConfig 172800 staleAccount" by code_simp
  from reserve_then_render_fail
         [of staleAccount exampleConfig 3600 failingRender "[''HELLO'']", OF h1 g1 h3] w1
  have s1: "submitJob exampleConfig failingRender 3600 [''HELLO''] staleAccount
              = (staleAccount, Inl RenderError)"
    by blast
  from reserve_then_render_fail
         [of staleAccount exampleConfig 172800 failingRender "[''HELLO'']", OF h1 g2 h3] w2
  have s2: "submitJob exampleConfig failingRender 172800 [''HELLO''] staleAccount
              = (staleAccount\<lparr>window_start := 172800, job_count := 0, page_count := 0\<rparr>,
                 Inl RenderError)"
    by blast
  show ?thesis using h1 h3 g1 g2 w1 w2 s1 s2 by blast
qed

end
